theory Spec2Isabelle
  imports Main "HOL-Library.Sublist" "HOL-Library.Multiset"
begin

section \<open>Data model\<close>

text \<open>
  The persistent store is a relational database reached through SQLAlchemy. Each table is
  a list of rows in insertion order. Primary keys (UUIDs) are natural numbers; a timestamp
  is an instant on an integer time line; a string is a list of characters. The rows carry
  the columns that the mapped classes declare and that the repositories and routers of the
  lead pipeline read or write; the primary keys and timestamps of the child tables
  (consents, stage_history) are generated by the database and are not read by any
  operation modelled here, so they are left out, as is \<open>updated_at\<close>, whose mixin is
  not part of the sources.
\<close>

type_synonym uuid = nat
type_synonym datetime = int

text \<open>
  \<open>app/models/investor.py\<close>, class \<open>InvestorProfile\<close> (the column \<open>id\<close> is
  \<open>lead_id\<close>). The class declares no attribute \<open>name\<close>: the second migration adds
  that column to the table only.
\<close>

record InvestorProfile =
  lead_id :: uuid
  phone :: string
  timeline :: "string option"
  capital_available :: "int option"
  investment_preferences :: "string list"
  investment_thesis :: "string option"
  risk_tolerance :: "string option"
  stage :: string
  lead_score :: int
  source :: string
  investor_type :: "string option"
  capacity :: "string option"
  fit :: "string option"
  process :: "string option"
  timing :: "string option"
  qualification_bucket :: "string option"
  qualification_score :: "int option"
  created_at :: datetime

text \<open>\<open>app/models/consent.py\<close>, classes \<open>Consent\<close> and \<open>StageHistory\<close>.\<close>

record Consent =
  c_investor_id :: uuid
  consent_text :: string
  ip_address :: "string option"
  user_agent :: "string option"

record StageHistory =
  sh_investor_id :: uuid
  from_stage :: "string option"
  to_stage :: string
  changed_by :: string
  sh_notes :: "string option"

text \<open>\<open>app/models/property.py\<close>, class \<open>Property\<close>: the columns \<open>search_deals\<close> filters and sorts on.\<close>

record Property =
  p_id :: uuid
  p_name :: string
  deal_type :: string
  summary :: "string option"
  minimum_investment :: "int option"
  p_status :: string
  p_created_at :: datetime

text \<open>\<open>app/schemas/lead.py\<close>: the request body of a lead submission.\<close>

record QualificationData =
  investorType :: string
  q_capacity :: string
  q_fit :: string
  q_process :: string
  q_timing :: string
  score :: int
  bucket :: string

record LeadSubmissionRequest =
  phoneNumber :: string
  consent :: bool
  timestamp :: string
  qualification :: "QualificationData option"
  investmentTimeline :: "string option"
  capitalAvailable :: "string option"
  investmentPreferences :: "string list option"

record LeadSubmissionResponse =
  success :: bool
  message :: string
  leadId :: uuid

text \<open>The tables one database session sees.\<close>

record store =
  investor_profiles :: "InvestorProfile list"
  consents :: "Consent list"
  stage_history :: "StageHistory list"
  properties :: "Property list"

text \<open>
  Failures: an \<open>HTTPException\<close> raised by a router (status code and detail), the
  framework's \<open>RequestValidationError\<close> for a query parameter outside its declared range
  (answered with 422), SQLAlchemy's \<open>MultipleResultsFound\<close> raised by
  \<open>scalar_one_or_none\<close>, the database's \<open>IntegrityError\<close> (primary-key or foreign-key
  violation) and \<open>DataError\<close> (a value the database refuses to evaluate), and Python's
  \<open>AttributeError\<close> for an attribute read on \<open>None\<close>. Request bodies are modelled
  after the schema validation of the framework has accepted them. The session dependency rolls
  the transaction back on every exception, so a failing operation returns the error alone
  and the store stays as it was.
\<close>

datatype error =
    HTTPException int string
  | RequestValidationError
  | MultipleResultsFound
  | IntegrityError
  | DataError
  | AttributeError

section \<open>Python and SQL helpers\<close>

text \<open>Truthiness of an \<open>Optional[str]\<close>: \<open>None\<close> and the empty string are falsy.\<close>

definition truthy :: "string option \<Rightarrow> bool" where
  "truthy v = (case v of None \<Rightarrow> False | Some s \<Rightarrow> s \<noteq> [])"

text \<open>\<open>Result.scalar_one_or_none()\<close>: no row, the one row, or an exception.\<close>

definition scalar_one_or_none :: "'a list \<Rightarrow> error + 'a option" where
  "scalar_one_or_none rows =
     (case rows of [] \<Rightarrow> Inr None | [r] \<Rightarrow> Inr (Some r) | _ \<Rightarrow> Inl MultipleResultsFound)"

section \<open>Capital bracket parsing\<close>

definition capital_map :: "(string \<times> int) list" where
  "capital_map =
     [(''$100K-$250K'', 175000),
      (''$250K-$500K'', 375000),
      (''$500K-$1M'', 750000),
      (''$1M+'', 1500000)]"

text \<open>\<open>app/routers/leads.py\<close>, \<open>parse_capital\<close>.\<close>

definition parse_capital :: "string option \<Rightarrow> int option" where
  "parse_capital capital_str =
     (case capital_str of
        None \<Rightarrow> None
      | Some s \<Rightarrow>
          if s = [] then None
          else if prefix ''other:'' s then None
          else map_of capital_map s)"

text \<open>\<open>app/services/lead_processor.py\<close>, \<open>parse_capital_to_int\<close>.\<close>

definition parse_capital_to_int :: "string option \<Rightarrow> int option" where
  "parse_capital_to_int capital_str =
     (case capital_str of
        None \<Rightarrow> None
      | Some s \<Rightarrow>
          if s = [] then None
          else if prefix ''other:'' s then None
          else map_of capital_map s)"

section \<open>Column types\<close>

text \<open>
  A column \<open>String(n)\<close> is \<open>character varying(n)\<close>: PostgreSQL refuses a longer value,
  unless the characters beyond the width are all spaces, in which case it stores the first
  \<open>n\<close> characters. A column \<open>Integer\<close> holds 32-bit values. A refused value fails the
  flush with \<open>DataError\<close>.
\<close>

definition varchar_ok :: "nat \<Rightarrow> string \<Rightarrow> bool" where
  "varchar_ok n v = list_all (\<lambda>c. c = CHR '' '') (drop n v)"

definition varchar_opt_ok :: "nat \<Rightarrow> string option \<Rightarrow> bool" where
  "varchar_opt_ok n v = (case v of None \<Rightarrow> True | Some x \<Rightarrow> varchar_ok n x)"

definition int4_ok :: "int \<Rightarrow> bool" where
  "int4_ok v = (- 2147483648 \<le> v \<and> v \<le> 2147483647)"

definition int4_opt_ok :: "int option \<Rightarrow> bool" where
  "int4_opt_ok v = (case v of None \<Rightarrow> True | Some x \<Rightarrow> int4_ok x)"

text \<open>The columns of \<open>investor_profiles\<close> with a width or a range, and the row as stored.\<close>

definition investor_row_ok :: "InvestorProfile \<Rightarrow> bool" where
  "investor_row_ok obj =
     (varchar_ok 20 (phone obj) \<and> varchar_opt_ok 50 (timeline obj) \<and>
      int4_opt_ok (capital_available obj) \<and> varchar_opt_ok 50 (risk_tolerance obj) \<and>
      varchar_ok 50 (stage obj) \<and> int4_ok (lead_score obj) \<and> varchar_ok 50 (source obj) \<and>
      varchar_opt_ok 100 (investor_type obj) \<and> varchar_opt_ok 100 (capacity obj) \<and>
      varchar_opt_ok 100 (fit obj) \<and> varchar_opt_ok 100 (process obj) \<and>
      varchar_opt_ok 100 (timing obj) \<and> varchar_opt_ok 50 (qualification_bucket obj) \<and>
      int4_opt_ok (qualification_score obj))"

definition investor_row :: "InvestorProfile \<Rightarrow> InvestorProfile" where
  "investor_row obj =
     obj\<lparr>phone := take 20 (phone obj),
         timeline := map_option (take 50) (timeline obj),
         risk_tolerance := map_option (take 50) (risk_tolerance obj),
         stage := take 50 (stage obj),
         source := take 50 (source obj),
         investor_type := map_option (take 100) (investor_type obj),
         capacity := map_option (take 100) (capacity obj),
         fit := map_option (take 100) (fit obj),
         process := map_option (take 100) (process obj),
         timing := map_option (take 100) (timing obj),
         qualification_bucket := map_option (take 50) (qualification_bucket obj)\<rparr>"

section \<open>Lead repository\<close>

text \<open>
  \<open>app/db/repositories/base.py\<close> and \<open>investor_repo.py\<close>. Every method takes the
  store of the session and returns the new store beside its result.
\<close>

definition lead_ids :: "store \<Rightarrow> uuid list" where
  "lead_ids s = map lead_id (investor_profiles s)"

text \<open>\<open>BaseRepository.get\<close>: \<open>select(model).where(model.id == id)\<close>, \<open>scalar_one_or_none\<close>.\<close>

definition get :: "store \<Rightarrow> uuid \<Rightarrow> error + InvestorProfile option" where
  "get s i = scalar_one_or_none (filter (\<lambda>l. lead_id l = i) (investor_profiles s))"

text \<open>
  \<open>BaseRepository.create\<close>: add, flush, refresh. The flush fails on a value that a
  column refuses and on a primary key that is already in the table; the refresh loads
  the row as stored, with the server default \<open>created_at = now()\<close>.
\<close>

definition create :: "store \<Rightarrow> datetime \<Rightarrow> InvestorProfile \<Rightarrow> error + (InvestorProfile \<times> store)" where
  "create s now obj =
     (if \<not> investor_row_ok obj then Inl DataError
      else if lead_id obj \<in> set (lead_ids s) then Inl IntegrityError
      else let row = (investor_row obj)\<lparr>created_at := now\<rparr>
           in Inr (row, s\<lparr>investor_profiles := investor_profiles s @ [row]\<rparr>))"

definition get_by_phone :: "store \<Rightarrow> string \<Rightarrow> error + InvestorProfile option" where
  "get_by_phone s p = scalar_one_or_none (filter (\<lambda>l. phone l = p) (investor_profiles s))"

text \<open>
  \<open>InvestorRepository.add_consent\<close>: no existence check; the flush fails on an address
  wider than \<open>String(45)\<close> and on the foreign key when the investor is not in the table.
\<close>

definition add_consent ::
  "store \<Rightarrow> uuid \<Rightarrow> string \<Rightarrow> string option \<Rightarrow> string option \<Rightarrow> error + (Consent \<times> store)" where
  "add_consent s investor_id ctext ip ua =
     (let c = \<lparr>c_investor_id = investor_id, consent_text = ctext,
                ip_address = map_option (take 45) ip, user_agent = ua\<rparr>
      in if \<not> varchar_opt_ok 45 ip then Inl DataError
         else if investor_id \<in> set (lead_ids s)
         then Inr (c, s\<lparr>consents := consents s @ [c]\<rparr>)
         else Inl IntegrityError)"

text \<open>
  \<open>session.add(StageHistory(...))\<close> and the flush that writes it: the row must fit
  \<open>from_stage String(50)\<close>, \<open>to_stage String(50)\<close> and \<open>changed_by String(100)\<close> and
  reference a lead in the table.
\<close>

definition add_stage_history :: "store \<Rightarrow> StageHistory \<Rightarrow> error + store" where
  "add_stage_history s h =
     (if \<not> (varchar_opt_ok 50 (from_stage h) \<and> varchar_ok 50 (to_stage h) \<and>
             varchar_ok 100 (changed_by h))
      then Inl DataError
      else if sh_investor_id h \<in> set (lead_ids s)
      then Inr (s\<lparr>stage_history := stage_history s @
                  [h\<lparr>from_stage := map_option (take 50) (from_stage h),
                     to_stage := take 50 (to_stage h),
                     changed_by := take 100 (changed_by h)\<rparr>]\<rparr>)
      else Inl IntegrityError)"

text \<open>
  \<open>InvestorRepository.update_stage\<close>: the flush writes the new stage to the lead
  (\<open>stage String(50)\<close>) and inserts the history row; the refresh loads the lead as stored.
\<close>

definition update_stage ::
  "store \<Rightarrow> uuid \<Rightarrow> string \<Rightarrow> string \<Rightarrow> string option \<Rightarrow> error + (InvestorProfile option \<times> store)" where
  "update_stage s investor_id new_stage changed_by_arg notes_arg =
     (case get s investor_id of
        Inl e \<Rightarrow> Inl e
      | Inr None \<Rightarrow> Inr (None, s)
      | Inr (Some investor) \<Rightarrow>
          let old_stage = stage investor;
              investor' = investor\<lparr>stage := take 50 new_stage\<rparr>;
              stage_change = \<lparr>sh_investor_id = investor_id, from_stage = Some old_stage,
                              to_stage = new_stage, changed_by = changed_by_arg,
                              sh_notes = notes_arg\<rparr>
          in if \<not> varchar_ok 50 new_stage then Inl DataError
             else
               case add_stage_history
                      (s\<lparr>investor_profiles :=
                           map (\<lambda>l. if lead_id l = investor_id then investor' else l)
                               (investor_profiles s)\<rparr>)
                      stage_change of
                 Inl e \<Rightarrow> Inl e
               | Inr s' \<Rightarrow> Inr (Some investor', s'))"

section \<open>Lead intake\<close>

text \<open>
  The \<open>InvestorProfile(...)\<close> constructor call and the qualification block that follows
  it; the two intake paths write the same statements and differ in the name of the capital
  parser only, which is the first argument. \<open>lead_score\<close> has the column default 0. The
  \<open>created_at\<close> written here is replaced by \<open>create\<close>.
\<close>

definition build_investor ::
  "(string option \<Rightarrow> int option) \<Rightarrow> uuid \<Rightarrow> LeadSubmissionRequest \<Rightarrow> InvestorProfile" where
  "build_investor parse new_id lead_data =
     (let capital =
            (case qualification lead_data of
               Some q \<Rightarrow> parse (Some (q_capacity q))
             | None \<Rightarrow>
                 if truthy (capitalAvailable lead_data)
                 then parse (capitalAvailable lead_data) else None);
          investor =
            \<lparr>lead_id = new_id, phone = phoneNumber lead_data,
             timeline = investmentTimeline lead_data, capital_available = capital,
             investment_preferences =
               (case investmentPreferences lead_data of None \<Rightarrow> [] | Some ps \<Rightarrow> ps),
             investment_thesis = None, risk_tolerance = None,
             stage = ''new_lead'', lead_score = 0, source = ''web'',
             investor_type = None, capacity = None, fit = None, process = None,
             timing = None, qualification_bucket = None, qualification_score = None,
             created_at = 0\<rparr>
      in case qualification lead_data of
           None \<Rightarrow> investor
         | Some q \<Rightarrow>
             investor\<lparr>investor_type := Some (investorType q),
                      capacity := Some (q_capacity q),
                      fit := Some (q_fit q),
                      process := Some (q_process q),
                      timing := Some (q_timing q),
                      qualification_bucket := Some (bucket q),
                      qualification_score := Some (score q),
                      lead_score := score q\<rparr>)"

text \<open>
  \<open>app/routers/leads.py\<close>, \<open>submit_lead\<close>. \<open>new_id\<close> is the value of \<open>uuid.uuid4()\<close>,
  \<open>now\<close> the database clock, \<open>client_host\<close> is \<open>request.client.host\<close> (\<open>None\<close> when
  \<open>request.client\<close> is). \<open>leadId\<close> is \<open>str(id)\<close>, an injective rendering, kept as the id.
  The history row added last is written by the flush of the commit.
\<close>

definition submit_lead ::
  "store \<Rightarrow> uuid \<Rightarrow> datetime \<Rightarrow> string option \<Rightarrow> LeadSubmissionRequest \<Rightarrow>
   string option \<Rightarrow> string option \<Rightarrow> error + (LeadSubmissionResponse \<times> store)" where
  "submit_lead s new_id now client_host lead_data x_forwarded_for ua =
     (if \<not> consent lead_data
      then Inl (HTTPException 400 ''Consent is required for lead submission'')
      else
        case get_by_phone s (phoneNumber lead_data) of
          Inl e \<Rightarrow> Inl e
        | Inr (Some existing) \<Rightarrow>
            Inr (\<lparr>success = True, message = ''Lead already exists'',
                  leadId = lead_id existing\<rparr>, s)
        | Inr None \<Rightarrow>
            (case create s now (build_investor parse_capital new_id lead_data) of
               Inl e \<Rightarrow> Inl e
             | Inr (investor, s1) \<Rightarrow>
                 let ip = (if truthy x_forwarded_for then x_forwarded_for else client_host)
                 in case add_consent s1 (lead_id investor)
                           ''TCPA consent granted via web chatbot'' ip ua of
                      Inl e \<Rightarrow> Inl e
                    | Inr (c, s2) \<Rightarrow>
                        let stage_change =
                              \<lparr>sh_investor_id = lead_id investor, from_stage = None,
                               to_stage = ''new_lead'', changed_by = ''system'',
                               sh_notes = Some ''Lead submitted via chatbot''\<rparr>
                        in case add_stage_history s2 stage_change of
                             Inl e \<Rightarrow> Inl e
                           | Inr s3 \<Rightarrow>
                               Inr (\<lparr>success = True,
                                     message = ''Lead submitted successfully'',
                                     leadId = lead_id investor\<rparr>, s3)))"

text \<open>\<open>app/services/lead_processor.py\<close>, \<open>LeadProcessor.process_lead\<close>.\<close>

definition process_lead ::
  "store \<Rightarrow> uuid \<Rightarrow> datetime \<Rightarrow> LeadSubmissionRequest \<Rightarrow> string option \<Rightarrow> string option \<Rightarrow>
   error + (InvestorProfile \<times> store)" where
  "process_lead s new_id now lead_data ip ua =
     (case get_by_phone s (phoneNumber lead_data) of
        Inl e \<Rightarrow> Inl e
      | Inr (Some existing) \<Rightarrow> Inr (existing, s)
      | Inr None \<Rightarrow>
          (case create s now (build_investor parse_capital_to_int new_id lead_data) of
             Inl e \<Rightarrow> Inl e
           | Inr (investor, s1) \<Rightarrow>
               (case add_consent s1 (lead_id investor)
                       ''TCPA consent granted via web chatbot'' ip ua of
                  Inl e \<Rightarrow> Inl e
                | Inr (c, s2) \<Rightarrow> Inr (investor, s2))))"

section \<open>SQL pattern matching and ordering\<close>

text \<open>
  \<open>LIKE\<close> as PostgreSQL evaluates it: in the pattern, \<open>%\<close> stands for any run of
  characters, \<open>_\<close> for any one character, and a backslash takes the next character
  literally. A pattern that ends in a lone backslash is an error in PostgreSQL; the
  patterns built below all end in \<open>%\<close>, so that equation is never reached by them.
\<close>

fun like_match :: "string \<Rightarrow> string \<Rightarrow> bool" where
  "like_match [] s = (s = [])"
| "like_match (c # p) s =
     (if c = CHR ''%'' then
        (like_match p s \<or> (case s of [] \<Rightarrow> False | x # s' \<Rightarrow> like_match (c # p) s'))
      else if c = CHR ''_'' then
        (case s of [] \<Rightarrow> False | x # s' \<Rightarrow> like_match p s')
      else if c = CHR 0x5C then
        (case p of
           [] \<Rightarrow> False
         | e # p' \<Rightarrow> (case s of [] \<Rightarrow> False | x # s' \<Rightarrow> x = e \<and> like_match p' s'))
      else
        (case s of [] \<Rightarrow> False | x # s' \<Rightarrow> x = c \<and> like_match p s'))"

text \<open>\<open>ILIKE\<close> folds case on both sides; the folding modelled is that of the ASCII letters.\<close>

definition lower_char :: "char \<Rightarrow> char" where
  "lower_char c =
     (let n = (of_char c :: nat) in if 65 \<le> n \<and> n \<le> 90 then char_of (n + 32) else c)"

definition lower :: "string \<Rightarrow> string" where
  "lower s = map lower_char s"

definition ilike :: "string \<Rightarrow> string \<Rightarrow> bool" where
  "ilike pat s = like_match (lower pat) (lower s)"

text \<open>\<open>column.contains(x)\<close> renders \<open>column LIKE '%' || x || '%'\<close>, with no escaping of \<open>x\<close>.\<close>

definition contains_pattern :: "string \<Rightarrow> string" where
  "contains_pattern x = ''%'' @ x @ ''%''"

text \<open>
  \<open>ORDER BY\<close> on a sort key that may be \<open>NULL\<close>. PostgreSQL puts \<open>NULL\<close> last in
  ascending and first in descending order. SQL leaves the order of rows with equal keys
  open; the model keeps them in table order (a stable insertion sort).
\<close>

definition asc_le :: "int option \<Rightarrow> int option \<Rightarrow> bool" where
  "asc_le a b =
     (case b of None \<Rightarrow> True
      | Some y \<Rightarrow> (case a of None \<Rightarrow> False | Some x \<Rightarrow> x \<le> y))"

definition desc_le :: "int option \<Rightarrow> int option \<Rightarrow> bool" where
  "desc_le a b = asc_le b a"

fun insert_row :: "('k \<Rightarrow> 'k \<Rightarrow> bool) \<Rightarrow> ('a \<Rightarrow> 'k) \<Rightarrow> 'a \<Rightarrow> 'a list \<Rightarrow> 'a list" where
  "insert_row le key x [] = [x]"
| "insert_row le key x (y # ys) =
     (if le (key x) (key y) then x # y # ys else y # insert_row le key x ys)"

definition order_by :: "('k \<Rightarrow> 'k \<Rightarrow> bool) \<Rightarrow> ('a \<Rightarrow> 'k) \<Rightarrow> 'a list \<Rightarrow> 'a list" where
  "order_by le key rows = foldr (insert_row le key) rows []"

text \<open>
  \<open>.offset(skip).limit(limit)\<close>: PostgreSQL rejects a negative \<open>OFFSET\<close> or \<open>LIMIT\<close>.
\<close>

definition paginate :: "int \<Rightarrow> int \<Rightarrow> 'a list \<Rightarrow> error + 'a list" where
  "paginate skip limit rows =
     (if skip < 0 \<or> limit < 0 then Inl DataError
      else Inr (take (nat limit) (drop (nat skip) rows)))"

section \<open>Lead search\<close>

text \<open>The keyword arguments of \<open>InvestorRepository.search_leads\<close>.\<close>

record lead_search =
  f_stage :: "string option"
  score_min :: "int option"
  score_max :: "int option"
  capital_min :: "int option"
  capital_max :: "int option"
  date_from :: "datetime option"
  date_to :: "datetime option"
  search :: "string option"
  sort_by :: string
  sort_order :: string
  skip :: int
  limit :: int

text \<open>
  The \<open>where\<close> clauses appended to the query. A comparison with a \<open>NULL\<close> column is not
  true, so a lead without \<open>capital_available\<close> fails every capital bound. A \<open>datetime\<close>
  is always truthy, so a date bound applies whenever it is not \<open>None\<close>.
\<close>

definition lead_matches :: "lead_search \<Rightarrow> InvestorProfile \<Rightarrow> bool" where
  "lead_matches q l =
     ((case f_stage q of None \<Rightarrow> True | Some st \<Rightarrow> st = [] \<or> stage l = st) \<and>
      (case score_min q of None \<Rightarrow> True | Some m \<Rightarrow> m \<le> lead_score l) \<and>
      (case score_max q of None \<Rightarrow> True | Some m \<Rightarrow> lead_score l \<le> m) \<and>
      (case capital_min q of None \<Rightarrow> True
       | Some m \<Rightarrow> (case capital_available l of None \<Rightarrow> False | Some c \<Rightarrow> m \<le> c)) \<and>
      (case capital_max q of None \<Rightarrow> True
       | Some m \<Rightarrow> (case capital_available l of None \<Rightarrow> False | Some c \<Rightarrow> c \<le> m)) \<and>
      (case date_from q of None \<Rightarrow> True | Some d \<Rightarrow> d \<le> created_at l) \<and>
      (case date_to q of None \<Rightarrow> True | Some d \<Rightarrow> created_at l \<le> d) \<and>
      (case search q of None \<Rightarrow> True
       | Some x \<Rightarrow> x = [] \<or> like_match (contains_pattern x) (phone l)))"

definition sort_column_map :: "(string \<times> (InvestorProfile \<Rightarrow> int option)) list" where
  "sort_column_map =
     [(''created_at'', \<lambda>l. Some (created_at l)),
      (''lead_score'', \<lambda>l. Some (lead_score l)),
      (''capital_available'', capital_available)]"

definition sort_column :: "string \<Rightarrow> InvestorProfile \<Rightarrow> int option" where
  "sort_column key =
     (case map_of sort_column_map key of
        Some col \<Rightarrow> col
      | None \<Rightarrow> (\<lambda>l. Some (created_at l)))"

text \<open>\<open>InvestorRepository.search_leads\<close>: the count is taken from the filtered query.\<close>

definition search_leads :: "store \<Rightarrow> lead_search \<Rightarrow> error + (InvestorProfile list \<times> nat)" where
  "search_leads s q =
     (let matching = filter (lead_matches q) (investor_profiles s);
          total = length matching;
          ordered =
            (if sort_order q = ''desc''
             then order_by desc_le (sort_column (sort_by q)) matching
             else order_by asc_le (sort_column (sort_by q)) matching)
      in case paginate (skip q) (limit q) ordered of
           Inl e \<Rightarrow> Inl e
         | Inr leads \<Rightarrow> Inr (leads, total))"

section \<open>Deal search\<close>

text \<open>The keyword arguments of \<open>PropertyRepository.search_deals\<close>.\<close>

record deal_search =
  d_status :: "string option"
  d_deal_type :: "string option"
  min_investment_max :: "int option"
  d_search :: "string option"
  d_skip :: int
  d_limit :: int

text \<open>
  The free-text clause is \<open>name ILIKE p OR summary ILIKE p\<close> with \<open>p = f"%{search}%"\<close>;
  a \<open>NULL\<close> summary makes its disjunct unknown, so the row is selected on the name alone.
\<close>

definition text_clause :: "string \<Rightarrow> Property \<Rightarrow> bool" where
  "text_clause x p =
     (ilike (contains_pattern x) (p_name p) \<or>
      (case summary p of None \<Rightarrow> False | Some sm \<Rightarrow> ilike (contains_pattern x) sm))"

definition deal_matches :: "deal_search \<Rightarrow> Property \<Rightarrow> bool" where
  "deal_matches q p =
     ((case d_status q of None \<Rightarrow> True | Some st \<Rightarrow> st = [] \<or> p_status p = st) \<and>
      (case d_deal_type q of None \<Rightarrow> True | Some dt \<Rightarrow> dt = [] \<or> deal_type p = dt) \<and>
      (case min_investment_max q of None \<Rightarrow> True
       | Some m \<Rightarrow> (case minimum_investment p of None \<Rightarrow> False | Some v \<Rightarrow> v \<le> m)) \<and>
      (case d_search q of None \<Rightarrow> True | Some x \<Rightarrow> x = [] \<or> text_clause x p))"

definition search_deals :: "store \<Rightarrow> deal_search \<Rightarrow> error + (Property list \<times> nat)" where
  "search_deals s q =
     (let matching = filter (deal_matches q) (properties s);
          total = length matching;
          ordered = order_by desc_le (\<lambda>p. Some (p_created_at p)) matching
      in case paginate (d_skip q) (d_limit q) ordered of
           Inl e \<Rightarrow> Inl e
         | Inr deals \<Rightarrow> Inr (deals, total))"

section \<open>Pipeline API\<close>

text \<open>\<open>app/routers/admin.py\<close>.\<close>

definition VALID_STAGES :: "string list" where
  "VALID_STAGES =
     [''new_lead'', ''call_dispatched'', ''call_completed'', ''insights_extracted'',
      ''deals_matched'', ''under_review'', ''closed'']"

text \<open>
  The text an f-string gives a list of strings: Python's \<open>repr\<close>, which for a string of
  letters and underscores is the string between single quotes.
\<close>

definition repr_str :: "string \<Rightarrow> string" where
  "repr_str x = [CHR 0x27] @ x @ [CHR 0x27]"

fun join :: "string \<Rightarrow> string list \<Rightarrow> string" where
  "join sep [] = []"
| "join sep [x] = x"
| "join sep (x # y # ys) = x @ sep @ join sep (y # ys)"

definition repr_list :: "string list \<Rightarrow> string" where
  "repr_list xs = ''['' @ join '', '' (map repr_str xs) @ '']''"

text \<open>The response schemas of \<open>app/schemas/investor.py\<close> (calls, matches and notes left out).\<close>

record InvestorQualificationResponse =
  iq_investorType :: string
  iq_capacity :: string
  iq_fit :: string
  iq_process :: string
  iq_timing :: string
  iq_score :: int
  iq_bucket :: string

record StageChangeResponse =
  fromStage :: "string option"
  toStage :: string
  changedBy :: string
  sc_notes :: "string option"

record LeadWithDetailsResponse =
  r_id :: uuid
  r_name :: string
  r_phone :: string
  r_timeline :: "string option"
  r_capitalAvailable :: "int option"
  r_investmentPreferences :: "string list"
  r_investmentThesis :: "string option"
  r_riskTolerance :: "string option"
  r_stage :: string
  r_leadScore :: int
  r_source :: string
  r_createdAt :: datetime
  r_stageHistory :: "StageChangeResponse list"
  r_qualification :: "InvestorQualificationResponse option"

text \<open>
  The relationship \<open>InvestorProfile.stage_history\<close>: the rows of the lead, newest first
  (\<open>order_by changed_at desc\<close>; rows are stamped in insertion order).
\<close>

definition history_of :: "store \<Rightarrow> uuid \<Rightarrow> StageHistory list" where
  "history_of s i = filter (\<lambda>h. sh_investor_id h = i) (stage_history s)"

definition consents_of :: "store \<Rightarrow> uuid \<Rightarrow> Consent list" where
  "consents_of s i = filter (\<lambda>c. c_investor_id c = i) (consents s)"

definition stage_history_rel :: "store \<Rightarrow> InvestorProfile \<Rightarrow> StageHistory list" where
  "stage_history_rel s l = rev (history_of s (lead_id l))"

text \<open>
  The local \<open>qualification\<close> of \<open>_investor_to_response\<close>. \<open>x or ""\<close> and
  \<open>qualification_score or lead_score\<close> are Python's \<open>or\<close>: the right operand when the
  left one is \<open>None\<close>, empty or zero. Inside the branch \<open>investor_type\<close> and
  \<open>qualification_bucket\<close> are non-empty strings, which \<open>or_empty\<close> unwraps.
\<close>

definition or_empty :: "string option \<Rightarrow> string" where
  "or_empty v = (case v of None \<Rightarrow> [] | Some x \<Rightarrow> x)"

definition build_qualification :: "InvestorProfile \<Rightarrow> InvestorQualificationResponse option" where
  "build_qualification lead =
     (if truthy (investor_type lead) \<and> truthy (qualification_bucket lead)
      then Some \<lparr>iq_investorType = or_empty (investor_type lead),
                 iq_capacity = or_empty (capacity lead),
                 iq_fit = or_empty (fit lead),
                 iq_process = or_empty (process lead),
                 iq_timing = or_empty (timing lead),
                 iq_score =
                   (case qualification_score lead of
                      None \<Rightarrow> lead_score lead
                    | Some n \<Rightarrow> if n = 0 then lead_score lead else n),
                 iq_bucket = or_empty (qualification_bucket lead)\<rparr>
      else None)"

text \<open>
  The attribute read \<open>lead.name\<close>. \<open>InvestorProfile\<close> declares no attribute of that
  name, so the read raises \<open>AttributeError\<close> on every lead.
\<close>

definition lead_name :: "InvestorProfile \<Rightarrow> error + string" where
  "lead_name lead = Inl AttributeError"

text \<open>
  \<open>_investor_to_response\<close>, on a lead and its loaded \<open>stage_history\<close>: the
  qualification and the history changes are built first, then the keyword arguments of
  \<open>LeadWithDetailsResponse\<close> are evaluated, \<open>name=lead.name\<close> among them.
\<close>

definition investor_to_response ::
  "InvestorProfile \<Rightarrow> StageHistory list \<Rightarrow> error + LeadWithDetailsResponse" where
  "investor_to_response lead hist =
     (let qual = build_qualification lead;
          changes =
            map (\<lambda>change. \<lparr>fromStage = from_stage change, toStage = to_stage change,
                             changedBy = changed_by change, sc_notes = sh_notes change\<rparr>) hist
      in case lead_name lead of
           Inl e \<Rightarrow> Inl e
         | Inr nm \<Rightarrow>
             Inr \<lparr>r_id = lead_id lead, r_name = nm, r_phone = phone lead,
                  r_timeline = timeline lead, r_capitalAvailable = capital_available lead,
                  r_investmentPreferences = investment_preferences lead,
                  r_investmentThesis = investment_thesis lead,
                  r_riskTolerance = risk_tolerance lead, r_stage = stage lead,
                  r_leadScore = lead_score lead, r_source = source lead,
                  r_createdAt = created_at lead, r_stageHistory = changes,
                  r_qualification = qual\<rparr>)"

text \<open>\<open>InvestorRepository.get_with_relations\<close>.\<close>

definition get_with_relations ::
  "store \<Rightarrow> uuid \<Rightarrow> error + (InvestorProfile \<times> StageHistory list) option" where
  "get_with_relations s i =
     (case get s i of
        Inl e \<Rightarrow> Inl e
      | Inr None \<Rightarrow> Inr None
      | Inr (Some l) \<Rightarrow> Inr (Some (l, stage_history_rel s l)))"

text \<open>\<open>get_lead\<close>: the detail response of one lead.\<close>

definition get_lead :: "store \<Rightarrow> uuid \<Rightarrow> error + LeadWithDetailsResponse" where
  "get_lead s i =
     (case get_with_relations s i of
        Inl e \<Rightarrow> Inl e
      | Inr None \<Rightarrow> Inl (HTTPException 404 ''Lead not found'')
      | Inr (Some (l, hist)) \<Rightarrow> investor_to_response l hist)"

text \<open>
  \<open>update_lead_stage\<close>; the request body is \<open>StageUpdateRequest(stage, notes)\<close>. The
  reload by \<open>get_with_relations\<close> is passed to \<open>_investor_to_response\<close> unchecked.
\<close>

definition update_lead_stage ::
  "store \<Rightarrow> uuid \<Rightarrow> string \<Rightarrow> string option \<Rightarrow> error + (LeadWithDetailsResponse \<times> store)" where
  "update_lead_stage s i new_stage notes_arg =
     (if new_stage \<notin> set VALID_STAGES
      then Inl (HTTPException 400
                  (''Invalid stage. Must be one of: '' @ repr_list VALID_STAGES))
      else
        case update_stage s i new_stage ''admin'' notes_arg of
          Inl e \<Rightarrow> Inl e
        | Inr (None, s') \<Rightarrow> Inl (HTTPException 404 ''Lead not found'')
        | Inr (Some lead, s') \<Rightarrow>
            (case get_with_relations s' i of
               Inl e \<Rightarrow> Inl e
             | Inr None \<Rightarrow> Inl AttributeError
             | Inr (Some (l, hist)) \<Rightarrow>
                 (case investor_to_response l hist of
                    Inl e \<Rightarrow> Inl e
                  | Inr response \<Rightarrow> Inr (response, s'))))"

text \<open>
  \<open>list_leads\<close>. The query parameters are declared \<open>page \<ge> 1\<close> and \<open>1 \<le> pageSize \<le> 100\<close>;
  the framework answers 422 otherwise. \<open>parse_iso\<close> stands for
  \<open>datetime.fromisoformat(x.replace("Z", "+00:00"))\<close>, \<open>None\<close> where it raises
  \<open>ValueError\<close>. \<open>math.ceil(total / page_size)\<close> is the integer ceiling (the float
  quotient is exact enough for every total below \<open>2^46\<close>).
\<close>

record lead_query =
  qp_stage :: "string option"
  scoreMin :: "int option"
  scoreMax :: "int option"
  capitalMin :: "int option"
  capitalMax :: "int option"
  dateFrom :: "string option"
  dateTo :: "string option"
  qp_search :: "string option"
  sortBy :: string
  sortOrder :: string
  page :: int
  pageSize :: int

record LeadListResponse =
  leads :: "LeadWithDetailsResponse list"
  total :: nat
  lr_page :: int
  lr_pageSize :: int
  totalPages :: nat

definition parse_date :: "(string \<Rightarrow> datetime option) \<Rightarrow> string option \<Rightarrow> datetime option" where
  "parse_date parse_iso v =
     (case v of None \<Rightarrow> None | Some x \<Rightarrow> if x = [] then None else parse_iso x)"

definition to_search :: "(string \<Rightarrow> datetime option) \<Rightarrow> lead_query \<Rightarrow> lead_search" where
  "to_search parse_iso qp =
     \<lparr>f_stage = qp_stage qp, score_min = scoreMin qp, score_max = scoreMax qp,
      capital_min = capitalMin qp, capital_max = capitalMax qp,
      date_from = parse_date parse_iso (dateFrom qp),
      date_to = parse_date parse_iso (dateTo qp),
      search = qp_search qp, sort_by = sortBy qp, sort_order = sortOrder qp,
      skip = (page qp - 1) * pageSize qp, limit = pageSize qp\<rparr>"

text \<open>The loop of \<open>list_leads\<close> over the page: it stops at the first lead that raises.\<close>

fun lead_responses :: "store \<Rightarrow> InvestorProfile list \<Rightarrow> error + LeadWithDetailsResponse list" where
  "lead_responses s [] = Inr []"
| "lead_responses s (l # ls) =
     (case investor_to_response l (stage_history_rel s l) of
        Inl e \<Rightarrow> Inl e
      | Inr r \<Rightarrow>
          (case lead_responses s ls of
             Inl e \<Rightarrow> Inl e
           | Inr rs \<Rightarrow> Inr (r # rs)))"

definition list_leads ::
  "store \<Rightarrow> (string \<Rightarrow> datetime option) \<Rightarrow> lead_query \<Rightarrow> error + LeadListResponse" where
  "list_leads s parse_iso qp =
     (if page qp < 1 \<or> pageSize qp < 1 \<or> 100 < pageSize qp
      then Inl RequestValidationError
      else
        case search_leads s (to_search parse_iso qp) of
          Inl e \<Rightarrow> Inl e
        | Inr (found, n) \<Rightarrow>
            (case lead_responses s found of
               Inl e \<Rightarrow> Inl e
             | Inr rs \<Rightarrow>
                 Inr \<lparr>leads = rs, total = n, lr_page = page qp, lr_pageSize = pageSize qp,
                      totalPages =
                        (if 0 < n then (n + nat (pageSize qp) - 1) div nat (pageSize qp)
                         else 1)\<rparr>))"

section \<open>Histories and sequences of operations\<close>

text \<open>Consecutive history rows are chained when each starts in the stage the previous one ended in.\<close>

fun chained :: "StageHistory list \<Rightarrow> bool" where
  "chained [] = True"
| "chained [h] = True"
| "chained (h1 # h2 # hs) = (from_stage h2 = Some (to_stage h1) \<and> chained (h2 # hs))"

text \<open>
  A run of \<open>update_stage\<close> calls on one lead, each with its stage, actor and notes; the run
  stops at the first exception.
\<close>

fun update_stages :: "store \<Rightarrow> uuid \<Rightarrow> (string \<times> string \<times> string option) list \<Rightarrow> error + store" where
  "update_stages s i [] = Inr s"
| "update_stages s i ((st, who, n) # rest) =
     (case update_stage s i st who n of
        Inl e \<Rightarrow> Inl e
      | Inr (r, s') \<Rightarrow> update_stages s' i rest)"

text \<open>
  What the session dependency \<open>get_db\<close> leaves in the database after a request: the new
  store on success, the old one after an exception (rollback).
\<close>

definition committed :: "store \<Rightarrow> error + ('a \<times> store) \<Rightarrow> store" where
  "committed s r = (case r of Inl e \<Rightarrow> s | Inr (x, s') \<Rightarrow> s')"

definition empty_store :: store where
  "empty_store = \<lparr>investor_profiles = [], consents = [], stage_history = [], properties = []\<rparr>"

section \<open>Sample data\<close>

text \<open>The bracket the intake reads: the qualification's capacity, else the top-level field.\<close>

definition bracket_of :: "LeadSubmissionRequest \<Rightarrow> string option" where
  "bracket_of lead_data =
     (case qualification lead_data of
        Some q \<Rightarrow> Some (q_capacity q)
      | None \<Rightarrow> capitalAvailable lead_data)"

definition sample_request :: LeadSubmissionRequest where
  "sample_request =
     \<lparr>phoneNumber = ''5551234567'', consent = True, timestamp = ''2024-01-01T00:00:00Z'',
      qualification = None, investmentTimeline = None,
      capitalAvailable = Some ''$250K-$500K'', investmentPreferences = None\<rparr>"

text \<open>The rows that \<open>submit_lead\<close> writes for the sample request as lead 1 at time 10.\<close>

definition sample_lead :: InvestorProfile where
  "sample_lead = (build_investor parse_capital 1 sample_request)\<lparr>created_at := 10\<rparr>"

definition creation_row :: "uuid \<Rightarrow> StageHistory" where
  "creation_row i =
     \<lparr>sh_investor_id = i, from_stage = None, to_stage = ''new_lead'',
      changed_by = ''system'', sh_notes = Some ''Lead submitted via chatbot''\<rparr>"

definition sample_consent :: Consent where
  "sample_consent =
     \<lparr>c_investor_id = 1, consent_text = ''TCPA consent granted via web chatbot'',
      ip_address = None, user_agent = None\<rparr>"

definition sample_store :: store where
  "sample_store =
     \<lparr>investor_profiles = [sample_lead], consents = [sample_consent],
      stage_history = [creation_row 1], properties = []\<rparr>"

text \<open>A lead with qualification columns, and the store that holds it.\<close>

definition qualified_lead :: InvestorProfile where
  "qualified_lead =
     sample_lead\<lparr>investor_type := Some ''hnw'', qualification_bucket := Some ''nurture'',
       qualification_score := Some 70, lead_score := 70\<rparr>"

definition qualified_store :: store where
  "qualified_store = sample_store\<lparr>investor_profiles := [qualified_lead]\<rparr>"

text \<open>
  Two leads on one phone number, the state that two concurrent first submissions leave
  behind (the column has an index and no unique constraint).
\<close>

definition two_lead_store :: store where
  "two_lead_store =
     \<lparr>investor_profiles = [sample_lead, sample_lead\<lparr>lead_id := 2, created_at := 11\<rparr>],
      consents = [sample_consent, sample_consent\<lparr>c_investor_id := 2\<rparr>],
      stage_history = [creation_row 1, creation_row 2], properties = []\<rparr>"

text \<open>Two stage updates by the admin.\<close>

definition two_updates :: "(string \<times> string \<times> string option) list" where
  "two_updates = [(''call_dispatched'', ''admin'', None), (''closed'', ''admin'', None)]"

text \<open>
  Seven leads in table order 3, 1, 6, 5, 2, 7, 4, each created at the time of its number;
  leads 6 and 7 are closed, the other five are new. A query for the new leads, two to a
  page.
\<close>

definition staged_lead :: "uuid \<Rightarrow> string \<Rightarrow> InvestorProfile" where
  "staged_lead i st = sample_lead\<lparr>lead_id := i, stage := st, created_at := int i\<rparr>"

definition pipeline_store :: store where
  "pipeline_store =
     empty_store\<lparr>investor_profiles :=
       [staged_lead 3 ''new_lead'', staged_lead 1 ''new_lead'', staged_lead 6 ''closed'',
        staged_lead 5 ''new_lead'', staged_lead 2 ''new_lead'', staged_lead 7 ''closed'',
        staged_lead 4 ''new_lead'']\<rparr>"

definition sample_query :: lead_query where
  "sample_query =
     \<lparr>qp_stage = Some ''new_lead'', scoreMin = None, scoreMax = None, capitalMin = None,
      capitalMax = None, dateFrom = None, dateTo = None, qp_search = None,
      sortBy = ''created_at'', sortOrder = ''desc'', page = 1, pageSize = 2\<rparr>"


text \<open>A search term with none of the characters that \<open>LIKE\<close> reads as syntax.\<close>

definition wildcard_free :: "string \<Rightarrow> bool" where
  "wildcard_free x = (CHR ''%'' \<notin> set x \<and> CHR ''_'' \<notin> set x \<and> CHR 0x5C \<notin> set x)"

definition sample_deal :: Property where
  "sample_deal =
     \<lparr>p_id = 1, p_name = ''Maple Court'', deal_type = ''multifamily'', summary = None,
      minimum_investment = Some 50000, p_status = ''active'', p_created_at = 1\<rparr>"

definition sample_deal_search :: deal_search where
  "sample_deal_search =
     \<lparr>d_status = Some ''active'', d_deal_type = None, min_investment_max = Some 100000,
      d_search = Some ''M_ple'', d_skip = 0, d_limit = 100\<rparr>"

definition deal_store :: store where
  "deal_store = empty_store\<lparr>properties := [sample_deal]\<rparr>"

section \<open>Capital bracket table\<close>

lemma parse_capital_eq:
  "parse_capital v =
     (if v = Some ''$100K-$250K'' then Some 175000
      else if v = Some ''$250K-$500K'' then Some 375000
      else if v = Some ''$500K-$1M'' then Some 750000
      else if v = Some ''$1M+'' then Some 1500000
      else None)"
  by (auto simp: parse_capital_def capital_map_def split: option.splits)

lemma parse_capital_to_int_eq: "parse_capital_to_int = parse_capital"
  by (rule ext) (simp add: parse_capital_to_int_def parse_capital_def)

lemma parse_falsy: "\<not> truthy v \<Longrightarrow> parse_capital v = None"
  by (auto simp: truthy_def parse_capital_def split: option.splits)

lemma build_investor_capital:
  "capital_available (build_investor parse_capital i d) = parse_capital (bracket_of d)"
  by (auto simp: build_investor_def bracket_of_def Let_def parse_falsy split: option.splits)

text \<open>
  C6. Both parsers map the four brackets to their midpoints and every other value, among
  them every string that starts with \<open>other:\<close> and the absent value, to \<open>None\<close>; the lead
  built by either intake path carries the parsed value of the bracket it reads.
\<close>

theorem capital_bracket_table:
  "parse_capital v =
     (if v = Some ''$100K-$250K'' then Some 175000
      else if v = Some ''$250K-$500K'' then Some 375000
      else if v = Some ''$500K-$1M'' then Some 750000
      else if v = Some ''$1M+'' then Some 1500000
      else None)
   \<and> parse_capital_to_int v = parse_capital v
   \<and> parse_capital (Some (''other:'' @ rest)) = None
   \<and> parse_capital None = None
   \<and> capital_available (build_investor parse_capital i d) = parse_capital (bracket_of d)
   \<and> capital_available (build_investor parse_capital_to_int i d) = parse_capital (bracket_of d)"
proof -
  have a: "parse_capital (Some (''other:'' @ rest)) = None"
    by (simp add: parse_capital_def)
  have b: "parse_capital None = None"
    by (simp add: parse_capital_def)
  have c: "build_investor parse_capital_to_int i d = build_investor parse_capital i d"
    by (simp add: build_investor_def parse_capital_to_int_eq)
  show ?thesis
    using parse_capital_eq [of v] parse_capital_to_int_eq a b c
      build_investor_capital [of i d]
    by simp
qed

theorem capital_bracket_table_witness:
  "parse_capital (Some ''$250K-$500K'') = Some 375000
   \<and> parse_capital (Some ''other:crypto'') = None
   \<and> parse_capital_to_int (Some ''$1M+'') = Some 1500000
   \<and> capital_available (build_investor parse_capital 1 sample_request) = Some 375000"
  using capital_bracket_table [of "Some ''$250K-$500K''" "''crypto''" 1 sample_request]
    capital_bracket_table [of "Some ''$1M+''" "''crypto''" 1 sample_request]
  by (simp add: bracket_of_def sample_request_def)

section \<open>Column values within their widths\<close>

lemma varchar_fits: "length v \<le> n \<Longrightarrow> varchar_ok n v"
  by (simp add: varchar_ok_def)

lemma sample_lead_fields [simp]:
  "lead_id sample_lead = 1" "phone sample_lead = ''5551234567''" "stage sample_lead = ''new_lead''"
  by (simp_all add: sample_lead_def sample_request_def build_investor_def Let_def)

lemma sample_row_ok: "investor_row_ok (build_investor parse_capital i sample_request)"
  by (simp add: investor_row_ok_def build_investor_def sample_request_def Let_def
      varchar_ok_def varchar_opt_ok_def int4_ok_def int4_opt_ok_def truthy_def
      parse_capital_def capital_map_def)

lemma sample_row_stored:
  "investor_row (build_investor parse_capital i sample_request) =
     build_investor parse_capital i sample_request"
  by (simp add: investor_row_def build_investor_def sample_request_def Let_def)

section \<open>Creation history row\<close>

text \<open>
  C1. On the empty store, \<open>process_lead\<close> creates the lead and its consent row and
  leaves the lead without any stage-history row.
\<close>

theorem process_lead_omits_creation_row:
  "\<exists>l s'. process_lead empty_store 1 0 sample_request None None = Inr (l, s')
     \<and> lead_id l = 1 \<and> stage l = ''new_lead''
     \<and> length (consents_of s' 1) = 1
     \<and> history_of s' 1 = []"
  by (simp add: process_lead_def sample_request_def empty_store_def get_by_phone_def
      scalar_one_or_none_def create_def lead_ids_def add_consent_def build_investor_def
      consents_of_def history_of_def Let_def investor_row_ok_def investor_row_def
      varchar_ok_def varchar_opt_ok_def int4_ok_def int4_opt_ok_def parse_capital_to_int_def
      capital_map_def)

section \<open>Stage validation\<close>

lemma invalid_stage_detail:
  "''Invalid stage. Must be one of: '' @ repr_list VALID_STAGES =
   ''Invalid stage. Must be one of: ['new_lead', 'call_dispatched', 'call_completed', 'insights_extracted', 'deals_matched', 'under_review', 'closed']''"
  by (simp add: repr_list_def VALID_STAGES_def repr_str_def)

lemma valid_stages_set:
  "set VALID_STAGES =
     {''new_lead'', ''call_dispatched'', ''call_completed'', ''insights_extracted'',
      ''deals_matched'', ''under_review'', ''closed''}"
  by (simp add: VALID_STAGES_def)

text \<open>
  C3. A stage-update request whose stage is not one of the seven pipeline stages is
  answered with HTTP 400 and a detail that lists the seven stages. The answer is the same
  on every store, so no table is read to produce it, and the database afterwards is the
  database before: the lead and its history rows are as they were.
\<close>

theorem invalid_stage_rejected:
  assumes "new_stage \<notin> {''new_lead'', ''call_dispatched'', ''call_completed'',
             ''insights_extracted'', ''deals_matched'', ''under_review'', ''closed''}"
  shows "update_lead_stage s i new_stage notes_arg =
           Inl (HTTPException 400
             ''Invalid stage. Must be one of: ['new_lead', 'call_dispatched', 'call_completed', 'insights_extracted', 'deals_matched', 'under_review', 'closed']'')
         \<and> update_lead_stage s' i new_stage notes_arg = update_lead_stage s i new_stage notes_arg
         \<and> committed s (update_lead_stage s i new_stage notes_arg) = s
         \<and> get (committed s (update_lead_stage s i new_stage notes_arg)) i = get s i
         \<and> history_of (committed s (update_lead_stage s i new_stage notes_arg)) i = history_of s i"
proof -
  have out: "new_stage \<notin> set VALID_STAGES"
    using assms by (simp add: valid_stages_set)
  have r: "\<And>t. update_lead_stage t i new_stage notes_arg =
           Inl (HTTPException 400 (''Invalid stage. Must be one of: '' @ repr_list VALID_STAGES))"
    using out by (simp add: update_lead_stage_def)
  show ?thesis
    by (simp only: r invalid_stage_detail [symmetric]) (simp add: committed_def)
qed

theorem invalid_stage_rejected_witness:
  "update_lead_stage sample_store 1 ''archived'' None =
           Inl (HTTPException 400
             ''Invalid stage. Must be one of: ['new_lead', 'call_dispatched', 'call_completed', 'insights_extracted', 'deals_matched', 'under_review', 'closed']'')
   \<and> update_lead_stage empty_store 1 ''archived'' None = update_lead_stage sample_store 1 ''archived'' None
   \<and> committed sample_store (update_lead_stage sample_store 1 ''archived'' None) = sample_store
   \<and> get (committed sample_store (update_lead_stage sample_store 1 ''archived'' None)) 1 = get sample_store 1
   \<and> history_of (committed sample_store (update_lead_stage sample_store 1 ''archived'' None)) 1 = history_of sample_store 1"
proof -
  have h: "''archived'' \<notin> {''new_lead'', ''call_dispatched'', ''call_completed'',
             ''insights_extracted'', ''deals_matched'', ''under_review'', ''closed''}"
    by simp
  show ?thesis by (rule invalid_stage_rejected [OF h])
qed



section \<open>Intake on the sample request\<close>

lemma sample_store_lookup: "get_by_phone sample_store ''5551234567'' = Inr (Some sample_lead)"
  by (simp add: get_by_phone_def sample_store_def scalar_one_or_none_def)

lemmas intake_eval =
  sample_request_def empty_store_def get_by_phone_def scalar_one_or_none_def create_def
  lead_ids_def add_consent_def add_stage_history_def build_investor_def Let_def
  investor_row_ok_def investor_row_def varchar_ok_def varchar_opt_ok_def int4_ok_def
  int4_opt_ok_def parse_capital_def parse_capital_to_int_def capital_map_def truthy_def
  sample_store_def sample_lead_def sample_consent_def creation_row_def

lemma submit_sample:
  "submit_lead empty_store 1 10 None sample_request None None =
     Inr (\<lparr>success = True, message = ''Lead submitted successfully'', leadId = 1\<rparr>,
          sample_store)"
  by (simp add: submit_lead_def intake_eval)

lemma process_sample:
  "process_lead empty_store 1 10 sample_request None None =
     Inr (sample_lead, sample_store\<lparr>stage_history := []\<rparr>)"
  by (simp add: process_lead_def intake_eval)

section \<open>Duplicate phone numbers\<close>

text \<open>
  C2. On a store where two leads with distinct ids carry the phone number of a consenting
  submission, the lookup by phone raises \<open>MultipleResultsFound\<close>, so both \<open>submit_lead\<close>
  and \<open>process_lead\<close> fail instead of answering with an existing lead; with one lead
  on the number \<open>submit_lead\<close> answers with that lead's id and leaves the store as it is.
\<close>

theorem duplicate_phone_lookup_raises:
  "distinct (lead_ids two_lead_store)
   \<and> map phone (investor_profiles two_lead_store) = [''5551234567'', ''5551234567'']
   \<and> phoneNumber sample_request = ''5551234567'' \<and> consent sample_request
   \<and> submit_lead two_lead_store 3 20 None sample_request None None = Inl MultipleResultsFound
   \<and> process_lead two_lead_store 3 20 sample_request None None = Inl MultipleResultsFound
   \<and> submit_lead sample_store 3 20 None sample_request None None =
       Inr (\<lparr>success = True, message = ''Lead already exists'', leadId = 1\<rparr>, sample_store)"
proof -
  have g: "get_by_phone two_lead_store ''5551234567'' = Inl MultipleResultsFound"
    by (simp add: get_by_phone_def two_lead_store_def scalar_one_or_none_def)
  have p: "phoneNumber sample_request = ''5551234567''" "consent sample_request"
    by (simp_all add: sample_request_def)
  show ?thesis
    by (simp add: submit_lead_def process_lead_def p g sample_store_lookup)
      (simp add: two_lead_store_def lead_ids_def)
qed

section \<open>History after intake and updates\<close>

lemma update_sample:
  "update_stage (sample_store\<lparr>stage_history := h\<rparr>) 1 ''call_dispatched'' ''admin'' None =
     Inr (Some (sample_lead\<lparr>stage := ''call_dispatched''\<rparr>),
          sample_store\<lparr>investor_profiles := [sample_lead\<lparr>stage := ''call_dispatched''\<rparr>],
            stage_history := h @
              [\<lparr>sh_investor_id = 1, from_stage = Some ''new_lead'',
                to_stage = ''call_dispatched'', changed_by = ''admin'', sh_notes = None\<rparr>]\<rparr>)"
  by (simp add: update_stage_def get_def sample_store_def scalar_one_or_none_def
      add_stage_history_def lead_ids_def varchar_ok_def varchar_opt_ok_def Let_def)

lemma update_sample_closed:
  "update_stage
     (sample_store\<lparr>investor_profiles := [sample_lead\<lparr>stage := ''call_dispatched''\<rparr>],
        stage_history := h\<rparr>) 1 ''closed'' ''admin'' None =
     Inr (Some (sample_lead\<lparr>stage := ''closed''\<rparr>),
          sample_store\<lparr>investor_profiles := [sample_lead\<lparr>stage := ''closed''\<rparr>],
            stage_history := h @
              [\<lparr>sh_investor_id = 1, from_stage = Some ''call_dispatched'',
                to_stage = ''closed'', changed_by = ''admin'', sh_notes = None\<rparr>]\<rparr>)"
  by (simp add: update_stage_def get_def sample_store_def scalar_one_or_none_def
      add_stage_history_def lead_ids_def varchar_ok_def varchar_opt_ok_def Let_def)

lemma two_updates_run:
  "\<exists>s2. update_stages (sample_store\<lparr>stage_history := h\<rparr>) 1 two_updates = Inr s2
     \<and> history_of s2 1 =
         filter (\<lambda>r. sh_investor_id r = 1) h @
           [\<lparr>sh_investor_id = 1, from_stage = Some ''new_lead'',
             to_stage = ''call_dispatched'', changed_by = ''admin'', sh_notes = None\<rparr>,
            \<lparr>sh_investor_id = 1, from_stage = Some ''call_dispatched'',
             to_stage = ''closed'', changed_by = ''admin'', sh_notes = None\<rparr>]"
  by (simp add: two_updates_def update_sample [simplified] update_sample_closed [simplified]
      history_of_def)

text \<open>
  C4. A lead taken in by \<open>process_lead\<close> and updated twice has two history rows, the
  first of them from \<open>new_lead\<close>; the same lead taken in by \<open>submit_lead\<close> and updated
  twice has three chained rows, the first without an origin stage.
\<close>

theorem history_after_process_lead:
  "(\<exists>l s1 s2. process_lead empty_store 1 10 sample_request None None = Inr (l, s1)
       \<and> lead_id l = 1
       \<and> update_stages s1 1 two_updates = Inr s2
       \<and> history_of s2 1 =
           [\<lparr>sh_investor_id = 1, from_stage = Some ''new_lead'',
             to_stage = ''call_dispatched'', changed_by = ''admin'', sh_notes = None\<rparr>,
            \<lparr>sh_investor_id = 1, from_stage = Some ''call_dispatched'',
             to_stage = ''closed'', changed_by = ''admin'', sh_notes = None\<rparr>]
       \<and> length (history_of s2 1) = 2)
   \<and> (\<exists>r s1 s2. submit_lead empty_store 1 10 None sample_request None None = Inr (r, s1)
       \<and> leadId r = 1
       \<and> update_stages s1 1 two_updates = Inr s2
       \<and> length (history_of s2 1) = 3
       \<and> chained (history_of s2 1)
       \<and> from_stage (hd (history_of s2 1)) = None)"
proof -
  from two_updates_run [of "[]"] obtain s2 where
    a: "update_stages (sample_store\<lparr>stage_history := []\<rparr>) 1 two_updates = Inr s2"
    "history_of s2 1 =
           [\<lparr>sh_investor_id = 1, from_stage = Some ''new_lead'',
             to_stage = ''call_dispatched'', changed_by = ''admin'', sh_notes = None\<rparr>,
            \<lparr>sh_investor_id = 1, from_stage = Some ''call_dispatched'',
             to_stage = ''closed'', changed_by = ''admin'', sh_notes = None\<rparr>]"
    by auto
  have same: "sample_store\<lparr>stage_history := [creation_row 1]\<rparr> = sample_store"
    by (simp add: sample_store_def)
  from two_updates_run [of "[creation_row 1]", unfolded same] obtain s3 where
    b: "update_stages sample_store 1 two_updates = Inr s3"
    "history_of s3 1 =
           [creation_row 1,
            \<lparr>sh_investor_id = 1, from_stage = Some ''new_lead'',
             to_stage = ''call_dispatched'', changed_by = ''admin'', sh_notes = None\<rparr>,
            \<lparr>sh_investor_id = 1, from_stage = Some ''call_dispatched'',
             to_stage = ''closed'', changed_by = ''admin'', sh_notes = None\<rparr>]"
    by (auto simp: creation_row_def)
  have A: "\<exists>l s1 s2. process_lead empty_store 1 10 sample_request None None = Inr (l, s1)
       \<and> lead_id l = 1
       \<and> update_stages s1 1 two_updates = Inr s2
       \<and> history_of s2 1 =
           [\<lparr>sh_investor_id = 1, from_stage = Some ''new_lead'',
             to_stage = ''call_dispatched'', changed_by = ''admin'', sh_notes = None\<rparr>,
            \<lparr>sh_investor_id = 1, from_stage = Some ''call_dispatched'',
             to_stage = ''closed'', changed_by = ''admin'', sh_notes = None\<rparr>]
       \<and> length (history_of s2 1) = 2"
    using a process_sample by simp
  have B: "\<exists>r s1 s2. submit_lead empty_store 1 10 None sample_request None None = Inr (r, s1)
       \<and> leadId r = 1
       \<and> update_stages s1 1 two_updates = Inr s2
       \<and> length (history_of s2 1) = 3
       \<and> chained (history_of s2 1)
       \<and> from_stage (hd (history_of s2 1)) = None"
    using b submit_sample by (simp add: creation_row_def)
  from A B show ?thesis by blast
qed

section \<open>Rendering a lead\<close>

lemma build_qualification_present:
  "(build_qualification lead \<noteq> None) =
     (truthy (investor_type lead) \<and> truthy (qualification_bucket lead))"
  by (simp add: build_qualification_def)

lemma investor_to_response_raises: "investor_to_response lead hist = Inl AttributeError"
  by (simp add: investor_to_response_def lead_name_def Let_def)

text \<open>
  C8. For a lead whose investor type and qualification bucket are both set the
  qualification block is built, and the response is still not produced: the read of
  \<open>lead.name\<close> raises \<open>AttributeError\<close>, so \<open>get_lead\<close> fails for that lead, as it
  does for a lead without qualification.
\<close>

theorem detail_response_raises:
  "build_qualification qualified_lead =
     Some \<lparr>iq_investorType = ''hnw'', iq_capacity = [], iq_fit = [], iq_process = [],
           iq_timing = [], iq_score = 70, iq_bucket = ''nurture''\<rparr>
   \<and> investor_to_response qualified_lead (stage_history_rel qualified_store qualified_lead) =
       Inl AttributeError
   \<and> get_lead qualified_store 1 = Inl AttributeError
   \<and> get_lead sample_store 1 = Inl AttributeError"
proof -
  have q: "build_qualification qualified_lead =
     Some \<lparr>iq_investorType = ''hnw'', iq_capacity = [], iq_fit = [], iq_process = [],
           iq_timing = [], iq_score = 70, iq_bucket = ''nurture''\<rparr>"
    by (simp add: build_qualification_def qualified_lead_def truthy_def or_empty_def
        sample_lead_def build_investor_def sample_request_def Let_def)
  have g: "get qualified_store 1 = Inr (Some qualified_lead)"
    "get sample_store 1 = Inr (Some sample_lead)"
    by (simp_all add: get_def qualified_store_def sample_store_def qualified_lead_def
        scalar_one_or_none_def)
  show ?thesis
    using q g by (simp add: get_lead_def get_with_relations_def investor_to_response_raises)
qed

lemma lead_responses_raise: "lead_responses s (l # ls) = Inl AttributeError"
  by (simp add: investor_to_response_raises)

lemma list_leads_page_raises:
  "list_leads pipeline_store (\<lambda>x. None) sample_query = Inl AttributeError"
proof -
  have "search_leads pipeline_store (to_search (\<lambda>x. None) sample_query) =
      Inr ([staged_lead 5 ''new_lead'', staged_lead 4 ''new_lead''], 5)"
    by (simp add: search_leads_def Let_def to_search_def sample_query_def lead_matches_def
        parse_date_def pipeline_store_def empty_store_def staged_lead_def paginate_def
        sort_column_def sort_column_map_def order_by_def desc_le_def asc_le_def)
  then show ?thesis
    by (simp add: list_leads_def investor_to_response_raises sample_query_def)
qed

section \<open>Updates to the current stage\<close>

text \<open>
  C10. \<open>update_stage\<close> with the stage the lead is in returns the lead unchanged and
  appends a history row from that stage to itself. The same request through
  \<open>update_lead_stage\<close> passes the stage check and then fails with \<open>AttributeError\<close>
  while the response is built, so nothing of it is committed.
\<close>

theorem same_stage_update_through_api:
  "''new_lead'' \<in> set VALID_STAGES \<and> stage sample_lead = ''new_lead''
   \<and> update_stage sample_store 1 ''new_lead'' ''admin'' None =
       Inr (Some sample_lead,
            sample_store\<lparr>stage_history :=
              [creation_row 1,
               \<lparr>sh_investor_id = 1, from_stage = Some ''new_lead'', to_stage = ''new_lead'',
                 changed_by = ''admin'', sh_notes = None\<rparr>]\<rparr>)
   \<and> update_lead_stage sample_store 1 ''new_lead'' None = Inl AttributeError
   \<and> committed sample_store (update_lead_stage sample_store 1 ''new_lead'' None) = sample_store"
proof -
  let ?s = "sample_store\<lparr>stage_history :=
              [creation_row 1,
               \<lparr>sh_investor_id = 1, from_stage = Some ''new_lead'', to_stage = ''new_lead'',
                 changed_by = ''admin'', sh_notes = None\<rparr>]\<rparr>"
  have v: "''new_lead'' \<in> set VALID_STAGES" by (simp add: VALID_STAGES_def)
  have same: "sample_lead\<lparr>stage := ''new_lead''\<rparr> = sample_lead"
    by (simp add: sample_lead_def build_investor_def Let_def split: option.splits)
  have u: "update_stage sample_store 1 ''new_lead'' ''admin'' None = Inr (Some sample_lead, ?s)"
    by (simp add: update_stage_def get_def sample_store_def scalar_one_or_none_def
        add_stage_history_def lead_ids_def varchar_ok_def varchar_opt_ok_def Let_def same)
  have g: "get ?s 1 = Inr (Some sample_lead)"
    by (simp add: get_def sample_store_def scalar_one_or_none_def)
  have r: "update_lead_stage sample_store 1 ''new_lead'' None = Inl AttributeError"
    using v u g
    by (simp add: update_lead_stage_def get_with_relations_def investor_to_response_raises)
  show ?thesis
    using v u r by (simp add: committed_def)
qed

section \<open>Lead search: count and pages\<close>














section \<open>Lead search: sort key\<close>














section \<open>Deal search: free-text filter\<close>

lemma like_any: "like_match [CHR ''%''] s"
  by (induction s) simp_all

lemma like_percent:
  "like_match (CHR ''%'' # p) s = (\<exists>u v. s = u @ v \<and> like_match p v)"
proof (induction s)
  case Nil
  then show ?case by simp
next
  case (Cons x s)
  have "(\<exists>u v. x # s = u @ v \<and> like_match p v) =
        (like_match p (x # s) \<or> (\<exists>u v. s = u @ v \<and> like_match p v))"
    by (auto simp: Cons_eq_append_conv)
  with Cons show ?case by simp
qed

lemma like_literal:
  "wildcard_free t \<Longrightarrow> like_match (t @ p) s = (\<exists>s'. s = t @ s' \<and> like_match p s')"
proof (induction t arbitrary: s)
  case Nil
  then show ?case by simp
next
  case (Cons c t)
  then have c: "c \<noteq> CHR ''%''" "c \<noteq> CHR ''_''" "c \<noteq> CHR 0x5C" and t: "wildcard_free t"
    by (auto simp: wildcard_free_def)
  show ?case
  proof (cases s)
    case Nil
    with c show ?thesis by simp
  next
    case (Cons x s')
    with c Cons.IH [OF t, of s'] show ?thesis by auto
  qed
qed

lemma like_contains:
  assumes "wildcard_free t"
  shows "like_match (contains_pattern t) s = sublist t s"
proof -
  have "like_match (contains_pattern t) s = (\<exists>u v. s = u @ v \<and> like_match (t @ [CHR ''%'']) v)"
    by (simp add: contains_pattern_def like_percent del: like_match.simps)
  also have "\<dots> = (\<exists>u v. s = u @ v \<and> (\<exists>w. v = t @ w))"
    by (simp add: like_literal [OF assms] like_any del: like_match.simps)
  also have "\<dots> = sublist t s"
    by (auto simp: sublist_def)
  finally show ?thesis .
qed

lemma of_char_lower:
  "(of_char (lower_char c) :: nat) =
     (if 65 \<le> (of_char c :: nat) \<and> (of_char c :: nat) \<le> 90 then of_char c + 32 else of_char c)"
  by (simp add: lower_char_def Let_def)

lemma lower_char_special:
  "lower_char c = CHR ''%'' \<longleftrightarrow> c = CHR ''%''"
  "lower_char c = CHR ''_'' \<longleftrightarrow> c = CHR ''_''"
  "lower_char c = CHR 0x5C \<longleftrightarrow> c = CHR 0x5C"
proof -
  have inj: "\<And>a b :: char. (a = b) = ((of_char a :: nat) = of_char b)"
    by simp
  show "lower_char c = CHR ''%'' \<longleftrightarrow> c = CHR ''%''"
    by (subst (1 2) inj) (simp add: of_char_lower)
  show "lower_char c = CHR ''_'' \<longleftrightarrow> c = CHR ''_''"
    by (subst (1 2) inj) (simp add: of_char_lower)
  show "lower_char c = CHR 0x5C \<longleftrightarrow> c = CHR 0x5C"
    by (subst (1 2) inj) (simp add: of_char_lower)
qed

lemma wildcard_free_lower:
  assumes "wildcard_free x"
  shows "wildcard_free (lower x)"
proof -
  have keep: "m \<in> set x"
    if m: "m = CHR ''%'' \<or> m = CHR ''_'' \<or> m = CHR 0x5C" and "m \<in> set (lower x)" for m
  proof -
    from that obtain c where c: "c \<in> set x" "lower_char c = m"
      by (auto simp: lower_def)
    from m c(2) have "c = m"
      using lower_char_special [of c] by auto
    with c(1) show ?thesis by simp
  qed
  show ?thesis
    unfolding wildcard_free_def
    using assms keep [of "CHR ''%''"] keep [of "CHR ''_''"] keep [of "CHR 0x5C"]
    by (auto simp: wildcard_free_def)
qed

lemma lower_contains: "lower (contains_pattern x) = contains_pattern (lower x)"
  by (simp add: lower_def contains_pattern_def lower_char_def)

lemma ilike_contains:
  "wildcard_free x \<Longrightarrow> ilike (contains_pattern x) s = sublist (lower x) (lower s)"
  by (simp add: ilike_def lower_contains like_contains wildcard_free_lower)



lemma text_clause_plain_term:
  assumes "wildcard_free x"
  shows "text_clause x p =
           (sublist (lower x) (lower (p_name p))
            \<or> (\<exists>sm. summary p = Some sm \<and> sublist (lower x) (lower sm)))"
  using assms by (simp add: text_clause_def ilike_contains split: option.splits)

text \<open>
  C9. The search term \<open>M_ple\<close> selects the deal named \<open>Maple Court\<close>, which has no
  summary, although the term, case folded, is not a substring of the name: the term is
  put into the pattern as it is and its underscore is read as a wildcard. The other
  filters of the sample search (status and investment ceiling) hold for the deal.
\<close>

theorem wildcard_term_matches:
  "d_search sample_deal_search = Some ''M_ple''
   \<and> p_name sample_deal = ''Maple Court'' \<and> summary sample_deal = None
   \<and> \<not> sublist (lower ''M_ple'') (lower (p_name sample_deal))
   \<and> text_clause ''M_ple'' sample_deal
   \<and> deal_matches sample_deal_search sample_deal
   \<and> search_deals deal_store sample_deal_search = Inr ([sample_deal], 1)"
proof -
  have l: "lower ''M_ple'' = ''m_ple''" "lower (p_name sample_deal) = ''maple court''"
    "lower (contains_pattern ''M_ple'') = ''%m_ple%''"
    by (simp_all add: lower_def lower_char_def sample_deal_def contains_pattern_def
        char_of_def bit_iff_odd)
  have A: "text_clause ''M_ple'' sample_deal"
    by (simp add: text_clause_def ilike_def l)
  have B: "deal_matches sample_deal_search sample_deal"
    using A by (simp add: deal_matches_def sample_deal_search_def sample_deal_def)
  have C: "\<not> sublist (lower ''M_ple'') (lower (p_name sample_deal))"
    unfolding l by (simp add: sublist_Cons_right)
  have D: "search_deals deal_store sample_deal_search = Inr ([sample_deal], 1)"
    using B by (simp add: search_deals_def deal_store_def empty_store_def Let_def order_by_def)
      (simp add: sample_deal_search_def paginate_def)
  show ?thesis
    using A B C D by (simp add: sample_deal_search_def) (simp add: sample_deal_def)
qed

end
